theory Spec2Isabelle
  imports Main "HOL-Library.AList" "HOL-Library.Word"
begin

section \<open>Python values\<close>

text \<open>
  \<^verbatim>\<open>src/main.py\<close> handles decoded JSON documents (the request body, the provider's
  replies) and one byte string (the downloaded image). \<open>pyval\<close> is the Python value
  such a document decodes to; a dict is the list of its items, read with \<open>map_of\<close>.
  JSON numbers with a fraction are left out.
\<close>

type_synonym byte = "8 word"

datatype pyval =
    PNone
  | PBool bool
  | PInt int
  | PStr string
  | PBytes "byte list"
  | PList "pyval list"
  | PDict "(string \<times> pyval) list"

datatype exn =
    RequestException
  | AttributeError
  | TypeError
  | IndexError
  | KeyError
  | ValueError
  | StorageError

text \<open>Truth value of an object, as \<^verbatim>\<open>not x\<close> and \<^verbatim>\<open>if x\<close> test it.\<close>

fun truthy :: "pyval \<Rightarrow> bool" where
  "truthy PNone = False"
| "truthy (PBool b) = b"
| "truthy (PInt i) = (i \<noteq> 0)"
| "truthy (PStr s) = (s \<noteq> [])"
| "truthy (PBytes bs) = (bs \<noteq> [])"
| "truthy (PList xs) = (xs \<noteq> [])"
| "truthy (PDict kvs) = (kvs \<noteq> [])"

text \<open>\<^verbatim>\<open>x.get(key, default)\<close>: only a dict has the method.\<close>

fun py_get :: "pyval \<Rightarrow> string \<Rightarrow> pyval \<Rightarrow> exn + pyval" where
  "py_get (PDict kvs) k d = Inr (case map_of kvs k of None \<Rightarrow> d | Some v \<Rightarrow> v)"
| "py_get _ k d = Inl AttributeError"

text \<open>\<^verbatim>\<open>x[0]\<close>. The keys of a decoded JSON object are strings, so 0 is never one.\<close>

fun py_index0 :: "pyval \<Rightarrow> exn + pyval" where
  "py_index0 (PList []) = Inl IndexError"
| "py_index0 (PList (x # xs)) = Inr x"
| "py_index0 (PStr []) = Inl IndexError"
| "py_index0 (PStr (c # cs)) = Inr (PStr [c])"
| "py_index0 (PBytes []) = Inl IndexError"
| "py_index0 (PBytes (b # bs)) = Inr (PInt (uint b))"
| "py_index0 (PDict kvs) = Inl KeyError"
| "py_index0 _ = Inl TypeError"

fun contains_str :: "string \<Rightarrow> string \<Rightarrow> bool" where
  "contains_str p [] = (p = [])"
| "contains_str p (c # cs) = (take (length p) (c # cs) = p \<or> contains_str p cs)"

text \<open>\<^verbatim>\<open>key in x\<close> for a string \<open>key\<close>.\<close>

fun py_contains :: "string \<Rightarrow> pyval \<Rightarrow> exn + bool" where
  "py_contains k (PDict kvs) = Inr (k \<in> fst ` set kvs)"
| "py_contains k (PList xs) = Inr (PStr k \<in> set xs)"
| "py_contains k (PStr s) = Inr (contains_str k s)"
| "py_contains k _ = Inl TypeError"

text \<open>\<^verbatim>\<open>x[key]\<close> for a string \<open>key\<close>.\<close>

fun py_getitem :: "pyval \<Rightarrow> string \<Rightarrow> exn + pyval" where
  "py_getitem (PDict kvs) k = (case map_of kvs k of None \<Rightarrow> Inl KeyError | Some v \<Rightarrow> Inr v)"
| "py_getitem _ k = Inl TypeError"

text \<open>
  \<^verbatim>\<open>min(x, cap)\<close> for an integer \<open>cap\<close>: the first argument is kept unless
  \<^verbatim>\<open>cap < x\<close>, and that comparison raises for a value that is not a number.
\<close>

fun py_min :: "pyval \<Rightarrow> int \<Rightarrow> exn + pyval" where
  "py_min (PInt i) cap = Inr (PInt (if cap < i then cap else i))"
| "py_min (PBool b) cap = Inr (if cap < (if b then 1 else 0) then PInt cap else PBool b)"
| "py_min _ cap = Inl TypeError"

text \<open>\<^verbatim>\<open>x[key] = v\<close> on a dict: an existing key keeps its place, a new one goes last.\<close>

fun py_setitem :: "pyval \<Rightarrow> string \<Rightarrow> pyval \<Rightarrow> exn + pyval" where
  "py_setitem (PDict kvs) k v = Inr (PDict (AList.update k v kvs))"
| "py_setitem _ k v = Inl TypeError"

subsection \<open>Formatting\<close>

definition digit :: "nat \<Rightarrow> char" where
  "digit d = ''0123456789'' ! (d mod 10)"

fun str_of_nat :: "nat \<Rightarrow> string" where
  "str_of_nat n = (if n < 10 then [digit n] else str_of_nat (n div 10) @ [digit n])"

declare str_of_nat.simps [simp del]

definition str_of_int :: "int \<Rightarrow> string" where
  "str_of_int i = (if i < 0 then CHR ''-'' # str_of_nat (nat (- i)) else str_of_nat (nat i))"

text \<open>
  \<^verbatim>\<open>f"{x}"\<close>, that is \<^verbatim>\<open>str(x)\<close>. The text of a list, a dict or a byte string quotes
  and escapes the strings inside it; that part of the interpreter is the parameter
  \<open>rp\<close>.
\<close>

fun py_str :: "(pyval \<Rightarrow> string) \<Rightarrow> pyval \<Rightarrow> string" where
  "py_str rp PNone = ''None''"
| "py_str rp (PBool b) = (if b then ''True'' else ''False'')"
| "py_str rp (PInt i) = str_of_int i"
| "py_str rp (PStr s) = s"
| "py_str rp v = rp v"

section \<open>The world outside the process\<close>

text \<open>
  Every effect of a request is an event of its trace, in the order the code performs
  it: the sleep before a status check, the calls on the shared HTTP session, the two
  calls on the storage blob. Log lines are not recorded.
\<close>

datatype event =
    Sleep nat
  | Post string pyval
  | Get pyval
  | UploadFromString string pyval string
  | MakePublic string

type_synonym trace = "event list"

text \<open>
  What a call on the session gives back: it raises (a connection error, a timeout, the
  transport's retries used up; all of them \<^verbatim>\<open>requests.RequestException\<close>), or it
  returns a response. \<open>json_body\<close> is what \<^verbatim>\<open>response.json()\<close> does: the decoded
  document, or the exception it raises on a body that is not JSON.
\<close>

record response =
  status_code :: nat
  json_body :: "exn + pyval"
  content :: "byte list"

datatype reply = Fails | Responds response

record datetime =
  year :: nat
  month :: nat
  day :: nat
  hour :: nat
  minute :: nat
  second :: nat

text \<open>
  The provider, the object store, the clock, the random source and the configuration
  are parameters. Each answer may depend on everything that happened before.
\<close>

record world =
  session_post :: "trace \<Rightarrow> string \<Rightarrow> pyval \<Rightarrow> reply"
  session_get :: "trace \<Rightarrow> pyval \<Rightarrow> reply"
  upload_from_string :: "trace \<Rightarrow> string \<Rightarrow> pyval \<Rightarrow> string \<Rightarrow> exn option"
  make_public :: "trace \<Rightarrow> string \<Rightarrow> exn option"
  public_url :: "string \<Rightarrow> string"
  datetime_now :: "trace \<Rightarrow> datetime"
  uuid4_hex :: "trace \<Rightarrow> string"
  GCP_FOLDER_NAME :: pyval
  repr :: "pyval \<Rightarrow> string"

text \<open>\<^verbatim>\<open>response.raise_for_status()\<close> raises on a 4xx or 5xx status.\<close>

definition raise_for_status :: "response \<Rightarrow> bool" where
  "raise_for_status r = (400 \<le> status_code r \<and> status_code r < 600)"

section \<open>Configuration constants\<close>

definition MAX_GENERATION_ATTEMPTS :: nat where
  "MAX_GENERATION_ATTEMPTS = 10"

definition GENERATION_WAIT_TIME :: nat where
  "GENERATION_WAIT_TIME = 10"

definition MODEL_ID :: string where
  "MODEL_ID = ''458ecfff-f76c-402c-8b85-f09f6fb198de''"

definition GENERATIONS_URL :: string where
  "GENERATIONS_URL = ''https://cloud.leonardo.ai/api/rest/v1/generations''"

definition PROMPT_SUFFIX :: string where
  "PROMPT_SUFFIX = '', ultra-photorealistic, cinematic lighting, high detail, natural textures, no distortions, no artifacts, no woman, no person, no people, no men, no man''"

definition NEGATIVE_PROMPT :: string where
  "NEGATIVE_PROMPT = ''blurry, distorted, unnatural anatomy, low resolution, artifacts, unrealistic, low quality, text, watermark, distorted ''"

section \<open>LeonardoImageGenerator\<close>

text \<open>
  A function of the source that calls out takes the trace so far and returns its
  outcome with the extended trace. \<open>Inl e\<close> is the exception \<open>e\<close> leaving the
  function, \<open>Inr v\<close> the value it returns (\<open>PNone\<close> for \<^verbatim>\<open>None\<close>).
\<close>

text \<open>A call on the session followed by \<^verbatim>\<open>raise_for_status()\<close>.\<close>

definition checked :: "reply \<Rightarrow> exn + response" where
  "checked rp =
     (case rp of
        Fails \<Rightarrow> Inl RequestException
      | Responds r \<Rightarrow> if raise_for_status r then Inl RequestException else Inr r)"

definition full_prompt :: "world \<Rightarrow> pyval \<Rightarrow> string" where
  "full_prompt w prompt = py_str (repr w) prompt @ PROMPT_SUFFIX"

definition payload :: "world \<Rightarrow> pyval \<Rightarrow> pyval \<Rightarrow> pyval \<Rightarrow> pyval" where
  "payload w prompt width height =
     PDict [(''prompt'', PStr (full_prompt w prompt)),
            (''negative_prompt'', PStr NEGATIVE_PROMPT),
            (''height'', height),
            (''width'', width),
            (''num_images'', PInt 1),
            (''modelId'', PStr MODEL_ID)]"

definition status_url :: "world \<Rightarrow> pyval \<Rightarrow> pyval" where
  "status_url w generation_id =
     PStr (GENERATIONS_URL @ ''/'' @ py_str (repr w) generation_id)"

text \<open>
  The branch of \<^verbatim>\<open>_poll_generation_status\<close> taken when the status is COMPLETE.
  \<open>Inr (Some v)\<close> is \<^verbatim>\<open>return v\<close>.
\<close>

definition on_complete :: "world \<Rightarrow> pyval \<Rightarrow> trace \<Rightarrow> (exn + pyval option) \<times> trace" where
  "on_complete w result_data t =
     (case py_get result_data ''generated_images'' (PList [PDict []]) of
        Inl e \<Rightarrow> (Inl e, t)
      | Inr images \<Rightarrow>
     (case py_index0 images of
        Inl e \<Rightarrow> (Inl e, t)
      | Inr image_data \<Rightarrow>
     (case py_get image_data ''nsfw'' (PBool False) of
        Inl e \<Rightarrow> (Inl e, t)
      | Inr nsfw \<Rightarrow>
     if truthy nsfw then (Inr (Some PNone), t)
     else
     (case py_get image_data ''url'' PNone of
        Inl e \<Rightarrow> (Inl e, t)
      | Inr image_url \<Rightarrow>
     if \<not> truthy image_url then (Inr (Some PNone), t)
     else
     (case checked (session_get w t image_url) of
        Inl e \<Rightarrow> (Inl e, t @ [Get image_url])
      | Inr image_response \<Rightarrow>
     (case py_setitem result_data ''image_bytes'' (PBytes (content image_response)) of
        Inl e \<Rightarrow> (Inl e, t @ [Get image_url])
      | Inr result_data' \<Rightarrow> (Inr (Some result_data'), t @ [Get image_url])))))))"

text \<open>
  The body of the \<^verbatim>\<open>try\<close> of one iteration. \<open>Inr None\<close>: the body ended without
  \<^verbatim>\<open>return\<close>, the status not being COMPLETE.
\<close>

definition poll_attempt :: "world \<Rightarrow> pyval \<Rightarrow> trace \<Rightarrow> (exn + pyval option) \<times> trace" where
  "poll_attempt w generation_id t =
     (let t1 = t @ [Sleep GENERATION_WAIT_TIME];
          t2 = t1 @ [Get (status_url w generation_id)]
      in
      case checked (session_get w t1 (status_url w generation_id)) of
        Inl e \<Rightarrow> (Inl e, t2)
      | Inr r \<Rightarrow>
     (case json_body r of
        Inl e \<Rightarrow> (Inl e, t2)
      | Inr body \<Rightarrow>
     (case py_get body ''generations_by_pk'' (PDict []) of
        Inl e \<Rightarrow> (Inl e, t2)
      | Inr result_data \<Rightarrow>
     (case py_get result_data ''status'' PNone of
        Inl e \<Rightarrow> (Inl e, t2)
      | Inr status \<Rightarrow>
     if status = PStr ''COMPLETE'' then on_complete w result_data t2
     else (Inr None, t2)))))"

text \<open>
  The \<^verbatim>\<open>for\<close> loop over \<^verbatim>\<open>range(MAX_GENERATION_ATTEMPTS)\<close>, by the number of
  iterations left. The handler of an iteration catches \<^verbatim>\<open>requests.RequestException\<close>
  only, and the loop goes on; any other exception leaves the function.
\<close>

fun poll_loop :: "world \<Rightarrow> pyval \<Rightarrow> nat \<Rightarrow> trace \<Rightarrow> (exn + pyval) \<times> trace" where
  "poll_loop w generation_id 0 t = (Inr PNone, t)"
| "poll_loop w generation_id (Suc n) t =
     (case poll_attempt w generation_id t of
        (Inl e, t') \<Rightarrow>
          if e = RequestException then poll_loop w generation_id n t' else (Inl e, t')
      | (Inr None, t') \<Rightarrow> poll_loop w generation_id n t'
      | (Inr (Some v), t') \<Rightarrow> (Inr v, t'))"

definition poll_generation_status :: "world \<Rightarrow> pyval \<Rightarrow> trace \<Rightarrow> (exn + pyval) \<times> trace" where
  "poll_generation_status w generation_id t =
     poll_loop w generation_id MAX_GENERATION_ATTEMPTS t"

text \<open>The body of the \<^verbatim>\<open>try\<close> of \<^verbatim>\<open>generate_image\<close>.\<close>

definition generate_image_body ::
  "world \<Rightarrow> pyval \<Rightarrow> pyval \<Rightarrow> pyval \<Rightarrow> trace \<Rightarrow> (exn + pyval) \<times> trace" where
  "generate_image_body w prompt width height t =
     (let p = payload w prompt width height;
          t1 = t @ [Post GENERATIONS_URL p]
      in
      case checked (session_post w t GENERATIONS_URL p) of
        Inl e \<Rightarrow> (Inl e, t1)
      | Inr r \<Rightarrow>
     (case json_body r of
        Inl e \<Rightarrow> (Inl e, t1)
      | Inr body \<Rightarrow>
     (case py_get body ''sdGenerationJob'' (PDict []) of
        Inl e \<Rightarrow> (Inl e, t1)
      | Inr job \<Rightarrow>
     (case py_get job ''generationId'' PNone of
        Inl e \<Rightarrow> (Inl e, t1)
      | Inr generation_id \<Rightarrow>
     if \<not> truthy generation_id then (Inr PNone, t1)
     else poll_generation_status w generation_id t1))))"

text \<open>\<^verbatim>\<open>except requests.RequestException: return None\<close>.\<close>

definition generate_image ::
  "world \<Rightarrow> pyval \<Rightarrow> pyval \<Rightarrow> pyval \<Rightarrow> trace \<Rightarrow> (exn + pyval) \<times> trace" where
  "generate_image w prompt width height t =
     (case generate_image_body w prompt width height t of
        (Inl e, t') \<Rightarrow> if e = RequestException then (Inr PNone, t') else (Inl e, t')
      | (Inr v, t') \<Rightarrow> (Inr v, t'))"

subsection \<open>upload_to_gcs\<close>

definition pad2 :: "nat \<Rightarrow> string" where
  "pad2 n = [digit (n div 10), digit n]"

text \<open>\<^verbatim>\<open>strftime("%Y%m%d_%H%M%S")\<close>, for a year of four digits.\<close>

definition strftime :: "datetime \<Rightarrow> string" where
  "strftime d =
     pad2 (year d div 100) @ pad2 (year d) @ pad2 (month d) @ pad2 (day d) @ ''_'' @
     pad2 (hour d) @ pad2 (minute d) @ pad2 (second d)"

definition image_id :: "world \<Rightarrow> trace \<Rightarrow> string" where
  "image_id w t = strftime (datetime_now w t) @ ''_'' @ take 8 (uuid4_hex w t) @ ''.jpg''"

definition blob_name :: "world \<Rightarrow> trace \<Rightarrow> string" where
  "blob_name w t = py_str (repr w) (GCP_FOLDER_NAME w) @ image_id w t"

definition upload_to_gcs_body :: "world \<Rightarrow> pyval \<Rightarrow> trace \<Rightarrow> (exn + pyval) \<times> trace" where
  "upload_to_gcs_body w image_data t =
     (case py_get image_data ''image_bytes'' PNone of
        Inl e \<Rightarrow> (Inl e, t)
      | Inr image_bytes \<Rightarrow>
     if \<not> truthy image_bytes then (Inl ValueError, t)
     else
     (let name = blob_name w t;
          t1 = t @ [UploadFromString name image_bytes ''image/jpeg''];
          t2 = t1 @ [MakePublic name]
      in
      case upload_from_string w t name image_bytes ''image/jpeg'' of
        Some e \<Rightarrow> (Inl e, t1)
      | None \<Rightarrow>
     (case make_public w t1 name of
        Some e \<Rightarrow> (Inl e, t2)
      | None \<Rightarrow> (Inr (PStr (public_url w name)), t2))))"

text \<open>\<^verbatim>\<open>except Exception: return None\<close>.\<close>

definition upload_to_gcs :: "world \<Rightarrow> pyval \<Rightarrow> trace \<Rightarrow> (exn + pyval) \<times> trace" where
  "upload_to_gcs w image_data t =
     (case upload_to_gcs_body w image_data t of
        (Inl e, t') \<Rightarrow> (Inr PNone, t')
      | (Inr v, t') \<Rightarrow> (Inr v, t'))"

section \<open>The endpoint\<close>

text \<open>
  A response of the endpoint is its status code and the document given to
  \<^verbatim>\<open>jsonify\<close>. \<open>data\<close> is the value of \<^verbatim>\<open>request.json\<close>, \<open>PNone\<close> when the
  request carries no body.
\<close>

type_synonym http_response = "nat \<times> pyval"

definition error_response :: "nat \<Rightarrow> string \<Rightarrow> http_response" where
  "error_response code msg = (code, PDict [(''error'', PStr msg)])"

definition endpoint_body :: "world \<Rightarrow> pyval \<Rightarrow> trace \<Rightarrow> (exn + http_response) \<times> trace" where
  "endpoint_body w data t =
     (if \<not> truthy data then (Inr (error_response 400 ''A prompt is required''), t)
      else
      case py_contains ''prompt'' data of
        Inl e \<Rightarrow> (Inl e, t)
      | Inr present \<Rightarrow>
     if \<not> present then (Inr (error_response 400 ''A prompt is required''), t)
     else
     (case py_getitem data ''prompt'' of
        Inl e \<Rightarrow> (Inl e, t)
      | Inr prompt \<Rightarrow>
     (case py_get data ''width'' (PInt 896) of
        Inl e \<Rightarrow> (Inl e, t)
      | Inr w0 \<Rightarrow>
     (case py_min w0 900 of
        Inl e \<Rightarrow> (Inl e, t)
      | Inr width \<Rightarrow>
     (case py_get data ''height'' (PInt 1192) of
        Inl e \<Rightarrow> (Inl e, t)
      | Inr h0 \<Rightarrow>
     (case py_min h0 1536 of
        Inl e \<Rightarrow> (Inl e, t)
      | Inr height \<Rightarrow>
     (case generate_image w prompt width height t of
        (Inl e, t1) \<Rightarrow> (Inl e, t1)
      | (Inr generated_image, t1) \<Rightarrow>
     if \<not> truthy generated_image
     then (Inr (error_response 500 ''Image generation failed''), t1)
     else
     (case upload_to_gcs w generated_image t1 of
        (Inl e, t2) \<Rightarrow> (Inl e, t2)
      | (Inr image_url, t2) \<Rightarrow>
     if \<not> truthy image_url
     then (Inr (error_response 500 ''Image upload failed''), t2)
     else (Inr (200, PDict [(''success'', PBool True),
                            (''prompt'', prompt),
                            (''image_url'', image_url)]), t2)))))))))"

text \<open>
  \<^verbatim>\<open>except Exception\<close>: whatever leaves the body becomes the last of the four error
  responses. A request starts with the empty trace.
\<close>

definition generate_image_endpoint :: "world \<Rightarrow> pyval \<Rightarrow> http_response \<times> trace" where
  "generate_image_endpoint w data =
     (case endpoint_body w data [] of
        (Inl e, t) \<Rightarrow> (error_response 500 ''Unexpected server error'', t)
      | (Inr r, t) \<Rightarrow> (r, t))"

section \<open>Replies of the provider\<close>

text \<open>
  The shapes of reply the properties below speak of. A submission is accepted with the
  job identifier \<open>generation_id\<close> when the response passes \<^verbatim>\<open>raise_for_status\<close> and
  its document holds a non-empty \<^verbatim>\<open>sdGenerationJob.generationId\<close>.
\<close>

definition accepted :: "reply \<Rightarrow> pyval \<Rightarrow> bool" where
  "accepted rp generation_id =
     (case rp of
        Fails \<Rightarrow> False
      | Responds r \<Rightarrow>
          \<not> raise_for_status r \<and>
          (case json_body r of
             Inr (PDict body) \<Rightarrow>
               (case map_of body ''sdGenerationJob'' of
                  Some (PDict job) \<Rightarrow>
                    map_of job ''generationId'' = Some generation_id \<and> truthy generation_id
                | _ \<Rightarrow> False)
           | _ \<Rightarrow> False))"


text \<open>
  A status check that reports COMPLETE with the first image descriptor flagged: the
  flag is whatever \<^verbatim>\<open>nsfw\<close> holds there, taken for its truth value. The descriptors
  after the first are \<open>others\<close>.
\<close>

definition complete_unsafe :: "reply \<Rightarrow> bool" where
  "complete_unsafe rp =
     (case rp of
        Fails \<Rightarrow> False
      | Responds r \<Rightarrow>
          \<not> raise_for_status r \<and>
          (case json_body r of
             Inr (PDict body) \<Rightarrow>
               (case map_of body ''generations_by_pk'' of
                  Some (PDict result_data) \<Rightarrow>
                    map_of result_data ''status'' = Some (PStr ''COMPLETE'') \<and>
                    (case map_of result_data ''generated_images'' of
                       Some (PList (PDict image_data # others)) \<Rightarrow>
                         (case map_of image_data ''nsfw'' of
                            Some flag \<Rightarrow> truthy flag
                          | None \<Rightarrow> False)
                     | _ \<Rightarrow> False)
                | _ \<Rightarrow> False)
           | _ \<Rightarrow> False))"



section \<open>Reading a polling run\<close>

text \<open>
  \<open>earlier_attempts w generation_id k t\<close> is the trace after \<open>k\<close> iterations of the
  loop that each went on to the next one (the status was not COMPLETE, or a
  \<^verbatim>\<open>RequestException\<close> was caught), \<open>None\<close> if one of them left the loop.
\<close>

fun earlier_attempts :: "world \<Rightarrow> pyval \<Rightarrow> nat \<Rightarrow> trace \<Rightarrow> trace option" where
  "earlier_attempts w generation_id 0 t = Some t"
| "earlier_attempts w generation_id (Suc k) t =
     (case poll_attempt w generation_id t of
        (Inl e, t') \<Rightarrow>
          if e = RequestException then earlier_attempts w generation_id k t' else None
      | (Inr None, t') \<Rightarrow> earlier_attempts w generation_id k t'
      | (Inr (Some v), t') \<Rightarrow> None)"

text \<open>
  What a returned result holds: the attached bytes, the status, and the flag of the
  first image descriptor read the way \<^verbatim>\<open>_poll_generation_status\<close> reads it.
\<close>

definition has_image_bytes :: "pyval \<Rightarrow> bool" where
  "has_image_bytes result =
     (case py_get result ''image_bytes'' PNone of Inr (PBytes bs) \<Rightarrow> True | _ \<Rightarrow> False)"

definition status_complete :: "pyval \<Rightarrow> bool" where
  "status_complete result = (py_get result ''status'' PNone = Inr (PStr ''COMPLETE''))"

definition nsfw_flag :: "pyval \<Rightarrow> exn + pyval" where
  "nsfw_flag result =
     (case py_get result ''generated_images'' (PList [PDict []]) of
        Inl e \<Rightarrow> Inl e
      | Inr images \<Rightarrow>
     (case py_index0 images of
        Inl e \<Rightarrow> Inl e
      | Inr image_data \<Rightarrow> py_get image_data ''nsfw'' (PBool False)))"

section \<open>Scenarios\<close>

text \<open>Concrete worlds on which the properties are evaluated.\<close>

definition ok_response :: "pyval \<Rightarrow> response" where
  "ok_response doc = \<lparr>status_code = 200, json_body = Inr doc, content = []\<rparr>"

definition job_reply :: reply where
  "job_reply =
     Responds (ok_response (PDict [(''sdGenerationJob'', PDict [(''generationId'', PStr ''gen-1'')])]))"

definition offline_world :: world where
  "offline_world =
     \<lparr>session_post = (\<lambda>t u p. Fails),
      session_get = (\<lambda>t u. Fails),
      upload_from_string = (\<lambda>t n b c. None),
      make_public = (\<lambda>t n. None),
      public_url = (\<lambda>n. ''https://storage.googleapis.com/bucket/'' @ n),
      datetime_now = (\<lambda>t. \<lparr>year = 2024, month = 5, day = 17, hour = 9, minute = 3, second = 41\<rparr>),
      uuid4_hex = (\<lambda>t. ''0f3a9c1e5b7d42689a0b1c2d3e4f5a6b''),
      GCP_FOLDER_NAME = PStr ''images/'',
      repr = (\<lambda>v. [])\<rparr>"

definition accepting_world :: world where
  "accepting_world = offline_world\<lparr>session_post := (\<lambda>t u p. job_reply)\<rparr>"

definition status_doc :: "(string \<times> pyval) list \<Rightarrow> pyval" where
  "status_doc result_data = PDict [(''generations_by_pk'', PDict result_data)]"

definition empty_images_world :: world where
  "empty_images_world =
     accepting_world\<lparr>session_get := (\<lambda>t u. Responds (ok_response
        (status_doc [(''status'', PStr ''COMPLETE''), (''generated_images'', PList [])])))\<rparr>"

definition pending_world :: world where
  "pending_world =
     accepting_world\<lparr>session_get := (\<lambda>t u. Responds (ok_response
        (status_doc [(''status'', PStr ''PENDING'')])))\<rparr>"

definition unsafe_doc :: pyval where
  "unsafe_doc =
     status_doc [(''status'', PStr ''COMPLETE''),
                 (''generated_images'',
                  PList [PDict [(''url'', PStr ''https://cdn.leonardo.ai/0.jpg''), (''nsfw'', PBool True)],
                         PDict [(''url'', PStr ''https://cdn.leonardo.ai/1.jpg''), (''nsfw'', PBool False)]])]"

definition unsafe_world :: world where
  "unsafe_world =
     accepting_world\<lparr>session_get := (\<lambda>t u.
        if length t < 3 then Responds (ok_response (status_doc [(''status'', PStr ''PENDING'')]))
        else Responds (ok_response unsafe_doc))\<rparr>"


definition image_url0 :: pyval where
  "image_url0 = PStr ''https://cdn.leonardo.ai/0.jpg''"

definition complete_doc :: pyval where
  "complete_doc =
     status_doc [(''status'', PStr ''COMPLETE''),
                 (''generated_images'', PList [PDict [(''url'', image_url0), (''nsfw'', PBool False)]])]"

definition happy_world :: world where
  "happy_world =
     accepting_world\<lparr>session_get := (\<lambda>t u.
        if u = image_url0
        then Responds \<lparr>status_code = 200, json_body = Inl ValueError, content = [0xFF, 0xD8, 0xFF]\<rparr>
        else Responds (ok_response complete_doc))\<rparr>"

definition late_empty_world :: world where
  "late_empty_world =
     accepting_world\<lparr>session_get := (\<lambda>t u.
        if length t < 3 then Responds (ok_response (status_doc [(''status'', PStr ''PENDING'')]))
        else Responds (ok_response
          (status_doc [(''status'', PStr ''COMPLETE''), (''generated_images'', PList [])])))\<rparr>"

section \<open>Evaluation\<close>

lemmas world_simps =
  offline_world_def accepting_world_def job_reply_def ok_response_def status_doc_def

lemmas code_simps =
  generate_image_endpoint_def endpoint_body_def generate_image_def generate_image_body_def
  poll_generation_status_def poll_attempt_def on_complete_def checked_def raise_for_status_def
  upload_to_gcs_def upload_to_gcs_body_def error_response_def Let_def
  MAX_GENERATION_ATTEMPTS_def GENERATION_WAIT_TIME_def status_url_def

text \<open>One iteration of the loop, for a number of iterations written as a numeral.\<close>

lemma poll_loop_numeral:
  "poll_loop w generation_id (numeral k) t =
     (case poll_attempt w generation_id t of
        (Inl e, t') \<Rightarrow>
          if e = RequestException then poll_loop w generation_id (pred_numeral k) t'
          else (Inl e, t')
      | (Inr None, t') \<Rightarrow> poll_loop w generation_id (pred_numeral k) t'
      | (Inr (Some v), t') \<Rightarrow> (Inr v, t'))"
  by (simp add: numeral_eq_Suc)

section \<open>Traces\<close>

text \<open>What a call appends to the trace, and that only the submission is a Post.\<close>

lemma on_complete_ext:
  "\<exists>ext. snd (on_complete w rd t) = t @ ext \<and> (\<forall>u q. Post u q \<notin> set ext)"
  by (simp add: on_complete_def split: sum.split)

lemma poll_attempt_ext:
  "\<exists>ext. snd (poll_attempt w g t) = t @ ext \<and> (\<forall>u q. Post u q \<notin> set ext)"
proof -
  let ?q = "[Sleep GENERATION_WAIT_TIME, Get (status_url w g)]"
  have complete: "\<exists>ext. snd (on_complete w rd (t @ ?q)) = t @ ext \<and> (\<forall>u q. Post u q \<notin> set ext)"
    for rd
  proof -
    obtain e where "snd (on_complete w rd (t @ ?q)) = (t @ ?q) @ e" "\<forall>u q. Post u q \<notin> set e"
      using on_complete_ext by blast
    then have "snd (on_complete w rd (t @ ?q)) = t @ (?q @ e)" "\<forall>u q. Post u q \<notin> set (?q @ e)"
      by auto
    then show ?thesis by blast
  qed
  have pending: "\<exists>ext. t @ ?q = t @ ext \<and> (\<forall>u q. Post u q \<notin> set ext)"
    by (rule exI [of _ ?q]) simp
  show ?thesis
    using complete pending by (simp add: poll_attempt_def Let_def split: sum.split)
qed

lemma poll_loop_ext:
  "\<exists>ext. snd (poll_loop w g n t) = t @ ext \<and> (\<forall>u q. Post u q \<notin> set ext)"
proof (induction n arbitrary: t)
  case 0
  then show ?case by simp
next
  case (Suc n)
  obtain r t' where a: "poll_attempt w g t = (r, t')" by (cases "poll_attempt w g t")
  then obtain e1 where e1: "t' = t @ e1" "\<forall>u q. Post u q \<notin> set e1"
    using poll_attempt_ext [of w g t] by auto
  obtain e2 where e2: "snd (poll_loop w g n t') = t' @ e2" "\<forall>u q. Post u q \<notin> set e2"
    using Suc.IH by blast
  have "snd (poll_loop w g n t') = t @ (e1 @ e2)" "\<forall>u q. Post u q \<notin> set (e1 @ e2)"
    using e1 e2 by auto
  then show ?case using a e1
    by (auto split: sum.split option.split)
qed

lemma generate_image_body_ext:
  "\<exists>ext. snd (generate_image_body w p wd h t) = t @ Post GENERATIONS_URL (payload w p wd h) # ext
     \<and> (\<forall>u q. Post u q \<notin> set ext)"
  using poll_loop_ext [of w _ MAX_GENERATION_ATTEMPTS "t @ [Post GENERATIONS_URL (payload w p wd h)]"]
  by (auto simp add: generate_image_body_def poll_generation_status_def Let_def split: sum.split)

lemma generate_image_ext:
  "\<exists>ext. snd (generate_image w p wd h t) = t @ Post GENERATIONS_URL (payload w p wd h) # ext
     \<and> (\<forall>u q. Post u q \<notin> set ext)"
  using generate_image_body_ext [of w p wd h t]
  by (auto simp add: generate_image_def split: prod.split sum.split)

lemma upload_to_gcs_ext:
  "\<exists>ext. snd (upload_to_gcs w d t) = t @ ext \<and> (\<forall>u q. Post u q \<notin> set ext)"
  by (auto simp add: upload_to_gcs_def upload_to_gcs_body_def Let_def
      split: sum.split option.split prod.split)

section \<open>Typed requests\<close>

text \<open>
  A request body as the interface describes it: an object with a \<^verbatim>\<open>prompt\<close>, whose
  \<^verbatim>\<open>width\<close> and \<^verbatim>\<open>height\<close> are integers when they are given (\<open>wo\<close> and \<open>ho\<close>
  are \<open>None\<close> when they are omitted). For such a body the endpoint reaches
  \<^verbatim>\<open>generate_image\<close>.
\<close>

lemma py_min_int: "py_min (PInt i) cap = Inr (PInt (min i cap))"
  by (simp add: min_def)

lemma map_of_present: "map_of kvs k = Some v \<Longrightarrow> k \<in> fst ` set kvs"
  by (metis map_of_eq_None_iff option.distinct(1))

lemma endpoint_body_typed:
  assumes "map_of kvs ''prompt'' = Some p"
    and "map_of kvs ''width'' = map_option PInt wo"
    and "map_of kvs ''height'' = map_option PInt ho"
  shows "endpoint_body w (PDict kvs) t =
     (case generate_image w p (PInt (min (case wo of None \<Rightarrow> 896 | Some i \<Rightarrow> i) 900))
                              (PInt (min (case ho of None \<Rightarrow> 1192 | Some i \<Rightarrow> i) 1536)) t of
        (Inl e, t1) \<Rightarrow> (Inl e, t1)
      | (Inr generated_image, t1) \<Rightarrow>
     if \<not> truthy generated_image
     then (Inr (error_response 500 ''Image generation failed''), t1)
     else
     (case upload_to_gcs w generated_image t1 of
        (Inl e, t2) \<Rightarrow> (Inl e, t2)
      | (Inr image_url, t2) \<Rightarrow>
     if \<not> truthy image_url
     then (Inr (error_response 500 ''Image upload failed''), t2)
     else (Inr (200, PDict [(''success'', PBool True),
                            (''prompt'', p),
                            (''image_url'', image_url)]), t2)))"
proof -
  have ne: "kvs \<noteq> []" using assms(1) by auto
  have pr: "''prompt'' \<in> fst ` set kvs" using assms(1) by (rule map_of_present)
  show ?thesis
    using ne pr assms
    by (cases wo; cases ho) (simp_all add: endpoint_body_def py_min_int)
qed

lemma endpoint_submits:
  assumes "map_of kvs ''prompt'' = Some p"
    and "map_of kvs ''width'' = map_option PInt wo"
    and "map_of kvs ''height'' = map_option PInt ho"
  shows "\<exists>rest. snd (generate_image_endpoint w (PDict kvs)) =
            Post GENERATIONS_URL
              (payload w p (PInt (min (case wo of None \<Rightarrow> 896 | Some i \<Rightarrow> i) 900))
                           (PInt (min (case ho of None \<Rightarrow> 1192 | Some i \<Rightarrow> i) 1536))) # rest
          \<and> (\<forall>u q. Post u q \<notin> set rest)
          \<and> fst (fst (generate_image_endpoint w (PDict kvs))) \<in> {200, 500}"
proof -
  let ?W = "PInt (min (case wo of None \<Rightarrow> 896 | Some i \<Rightarrow> i) 900)"
  let ?H = "PInt (min (case ho of None \<Rightarrow> 1192 | Some i \<Rightarrow> i) 1536)"
  obtain r t1 where g: "generate_image w p ?W ?H [] = (r, t1)"
    by (cases "generate_image w p ?W ?H []")
  obtain e1 where e1: "t1 = Post GENERATIONS_URL (payload w p ?W ?H) # e1"
      "\<forall>u q. Post u q \<notin> set e1"
    using generate_image_ext [of w p ?W ?H "[]"] g by auto
  show ?thesis
  proof (cases r)
    case (Inl e)
    then show ?thesis using g e1
      by (simp add: generate_image_endpoint_def endpoint_body_typed [OF assms] error_response_def)
  next
    case (Inr v)
    obtain r2 t2 where u: "upload_to_gcs w v t1 = (r2, t2)"
      by (cases "upload_to_gcs w v t1")
    obtain e2 where e2: "t2 = t1 @ e2" "\<forall>u q. Post u q \<notin> set e2"
      using upload_to_gcs_ext [of w v t1] u by auto
    show ?thesis using Inr g e1 u e2
      by (cases r2)
        (simp_all add: generate_image_endpoint_def endpoint_body_typed [OF assms] error_response_def)
  qed
qed

section \<open>Polling\<close>

lemma acceptedD:
  assumes "accepted rp g"
  shows "\<exists>r body job. rp = Responds r \<and> \<not> raise_for_status r \<and> json_body r = Inr (PDict body)
           \<and> map_of body ''sdGenerationJob'' = Some (PDict job)
           \<and> map_of job ''generationId'' = Some g \<and> truthy g"
proof (cases rp)
  case Fails
  with assms show ?thesis by (simp add: accepted_def)
next
  case (Responds r)
  show ?thesis
  proof (cases "json_body r")
    case (Inl e)
    with assms Responds show ?thesis by (simp add: accepted_def)
  next
    case (Inr doc)
    show ?thesis
    proof (cases doc)
      case (PDict body)
      show ?thesis
      proof (cases "map_of body ''sdGenerationJob''")
        case None
        with assms Responds Inr PDict show ?thesis by (simp add: accepted_def)
      next
        case (Some job)
        with assms Responds Inr PDict show ?thesis by (cases job) (simp_all add: accepted_def)
      qed
    qed (use assms Responds Inr in \<open>simp_all add: accepted_def\<close>)
  qed
qed

lemma accepted_submission:
  assumes "accepted (session_post w t GENERATIONS_URL (payload w p wd h)) g"
  shows "generate_image_body w p wd h t =
           poll_generation_status w g (t @ [Post GENERATIONS_URL (payload w p wd h)])"
  using acceptedD [OF assms]
  by (auto simp add: generate_image_body_def checked_def Let_def)




lemma generate_image_None:
  assumes "generate_image_body w p wd h t = (Inr PNone, t')"
  shows "generate_image w p wd h t = (Inr PNone, t')"
  using assms by (simp add: generate_image_def)


lemma complete_unsafeD:
  assumes "complete_unsafe rp"
  shows "\<exists>r body rd img others flag. rp = Responds r \<and> \<not> raise_for_status r
           \<and> json_body r = Inr (PDict body)
           \<and> map_of body ''generations_by_pk'' = Some (PDict rd)
           \<and> map_of rd ''status'' = Some (PStr ''COMPLETE'')
           \<and> map_of rd ''generated_images'' = Some (PList (PDict img # others))
           \<and> map_of img ''nsfw'' = Some flag \<and> truthy flag"
proof (cases rp)
  case Fails
  with assms show ?thesis by (simp add: complete_unsafe_def)
next
  case (Responds r)
  show ?thesis
  proof (cases "json_body r")
    case (Inl e)
    with assms Responds show ?thesis by (simp add: complete_unsafe_def)
  next
    case (Inr doc)
    show ?thesis
    proof (cases doc)
      case (PDict body)
      show ?thesis
      proof (cases "map_of body ''generations_by_pk''")
        case None
        with assms Responds Inr PDict show ?thesis by (simp add: complete_unsafe_def)
      next
        case (Some v)
        show ?thesis
        proof (cases v)
          case rd: (PDict rd)
          have st: "map_of rd ''status'' = Some (PStr ''COMPLETE'')"
            using assms Responds Inr PDict Some rd by (simp add: complete_unsafe_def)
          have im: "case map_of rd ''generated_images'' of
                       Some (PList (PDict image_data # others)) \<Rightarrow>
                         (case map_of image_data ''nsfw'' of
                            Some flag \<Rightarrow> truthy flag
                          | None \<Rightarrow> False)
                     | _ \<Rightarrow> False"
            using assms Responds Inr PDict Some rd by (simp add: complete_unsafe_def)
          then obtain img others flag where
            "map_of rd ''generated_images'' = Some (PList (PDict img # others))"
            "map_of img ''nsfw'' = Some flag" "truthy flag"
            by (auto split: option.splits pyval.splits list.splits)
          with assms Responds Inr PDict Some rd st show ?thesis
            by (simp add: complete_unsafe_def)
        qed (use assms Responds Inr PDict Some in \<open>simp_all add: complete_unsafe_def\<close>)
      qed
    qed (use assms Responds Inr in \<open>simp_all add: complete_unsafe_def\<close>)
  qed
qed

lemma poll_attempt_unsafe:
  assumes "complete_unsafe (session_get w (t @ [Sleep GENERATION_WAIT_TIME]) (status_url w g))"
  shows "poll_attempt w g t =
           (Inr (Some PNone), t @ [Sleep GENERATION_WAIT_TIME, Get (status_url w g)])"
  using complete_unsafeD [OF assms]
  by (auto simp add: poll_attempt_def on_complete_def checked_def Let_def)

lemma poll_loop_after:
  assumes "earlier_attempts w g k t = Some t'"
  shows "poll_loop w g (k + n) t = poll_loop w g n t'"
  using assms
proof (induction k arbitrary: t)
  case 0
  then show ?case by simp
next
  case (Suc k)
  then show ?case
    by (auto split: prod.splits sum.splits option.splits if_splits)
qed


section \<open>Returned results\<close>

lemma py_get_update_other:
  "k \<noteq> k' \<Longrightarrow> py_get (PDict (AList.update k' v kvs)) k d = py_get (PDict kvs) k d"
  by (simp add: update_conv')

lemma py_get_update_same:
  "py_get (PDict (AList.update k v kvs)) k d = Inr v"
  by (simp add: update_conv')

lemma on_complete_result:
  assumes "on_complete w rd t = (Inr (Some v), t')" and "v \<noteq> PNone"
  shows "\<exists>kvs bs flag. rd = PDict kvs
           \<and> v = PDict (AList.update ''image_bytes'' (PBytes bs) kvs)
           \<and> nsfw_flag rd = Inr flag \<and> \<not> truthy flag"
proof (cases rd)
  case (PDict kvs)
  with assms show ?thesis
    by (auto simp add: on_complete_def nsfw_flag_def split: sum.splits if_splits)
qed (use assms in \<open>simp_all add: on_complete_def\<close>)

lemma poll_attempt_result:
  assumes "poll_attempt w g t = (Inr (Some v), t')" and "v \<noteq> PNone"
  shows "has_image_bytes v \<and> status_complete v \<and> (\<exists>flag. nsfw_flag v = Inr flag \<and> \<not> truthy flag)"
proof -
  obtain rd t2 where oc: "on_complete w rd t2 = (Inr (Some v), t')"
    and st: "py_get rd ''status'' PNone = Inr (PStr ''COMPLETE'')"
    using assms(1)
    by (auto simp add: poll_attempt_def Let_def split: sum.splits if_splits)
  obtain kvs bs flag where r: "rd = PDict kvs"
      "v = PDict (AList.update ''image_bytes'' (PBytes bs) kvs)"
      "nsfw_flag rd = Inr flag" "\<not> truthy flag"
    using on_complete_result [OF oc assms(2)] by blast
  have "has_image_bytes v"
    using r(2) by (simp add: has_image_bytes_def update_conv')
  moreover have "status_complete v"
    using st r(1,2) by (simp add: status_complete_def update_conv')
  moreover have "nsfw_flag v = nsfw_flag rd"
    using r(1,2) by (simp add: nsfw_flag_def update_conv')
  ultimately show ?thesis using r(3,4) by simp
qed

lemma poll_loop_result:
  assumes "poll_loop w g n t = (Inr v, t')" and "v \<noteq> PNone"
  shows "has_image_bytes v \<and> status_complete v \<and> (\<exists>flag. nsfw_flag v = Inr flag \<and> \<not> truthy flag)"
  using assms
proof (induction n arbitrary: t)
  case 0
  then show ?case by simp
next
  case (Suc n)
  obtain r t1 where a: "poll_attempt w g t = (r, t1)" by (cases "poll_attempt w g t")
  show ?case
  proof (cases r)
    case (Inl e)
    with Suc a show ?thesis by (auto split: if_splits)
  next
    case (Inr res)
    show ?thesis
    proof (cases res)
      case None
      with Suc a Inr show ?thesis by auto
    next
      case (Some v')
      with Suc.prems a Inr have "poll_attempt w g t = (Inr (Some v), t1)" by simp
      from poll_attempt_result [OF this Suc.prems(2)] show ?thesis .
    qed
  qed
qed





section \<open>Containment of failures\<close>

lemma upload_to_gcs_returns:
  "fst (upload_to_gcs w image_data t) = Inr PNone
   \<or> fst (upload_to_gcs w image_data t) = Inr (PStr (public_url w (blob_name w t)))"
  by (auto simp add: upload_to_gcs_def upload_to_gcs_body_def Let_def
      split: sum.splits option.splits)

lemma generate_image_catches_transport:
  "fst (generate_image w prompt width height t) \<noteq> Inl RequestException"
  by (auto simp add: generate_image_def split: prod.splits sum.splits)

section \<open>Properties\<close>



text \<open>
  C2. When a status check reports COMPLETE and the first image descriptor is flagged
  unsafe, whatever the descriptors after it hold, the loop returns at once with no
  result: the trace ends with that status check, after however many earlier attempts
  went on, so no further attempt and no further call is made. The endpoint answers 500
  with \<^verbatim>\<open>Image generation failed\<close>.
\<close>

theorem unsafe_image_aborts_polling:
  assumes "map_of kvs ''prompt'' = Some p"
    and "map_of kvs ''width'' = map_option PInt wo"
    and "map_of kvs ''height'' = map_option PInt ho"
    and "sent = payload w p (PInt (min (case wo of None \<Rightarrow> 896 | Some i \<Rightarrow> i) 900))
                            (PInt (min (case ho of None \<Rightarrow> 1192 | Some i \<Rightarrow> i) 1536))"
    and "accepted (session_post w [] GENERATIONS_URL sent) generation_id"
    and "earlier_attempts w generation_id k [Post GENERATIONS_URL sent] = Some t"
    and "k < 10"
    and "complete_unsafe (session_get w (t @ [Sleep 10]) (status_url w generation_id))"
  shows "poll_generation_status w generation_id [Post GENERATIONS_URL sent] =
           (Inr PNone, t @ [Sleep 10, Get (status_url w generation_id)])
       \<and> generate_image_endpoint w (PDict kvs) =
           ((500, PDict [(''error'', PStr ''Image generation failed'')]),
            t @ [Sleep 10, Get (status_url w generation_id)])"
proof -
  let ?W = "PInt (min (case wo of None \<Rightarrow> 896 | Some i \<Rightarrow> i) 900)"
  let ?H = "PInt (min (case ho of None \<Rightarrow> 1192 | Some i \<Rightarrow> i) 1536)"
  obtain n where n: "MAX_GENERATION_ATTEMPTS = k + Suc n"
    using assms(7) by (auto simp add: MAX_GENERATION_ATTEMPTS_def dest: less_imp_Suc_add)
  have last: "poll_loop w generation_id (Suc n) t =
          (Inr PNone, t @ [Sleep 10, Get (status_url w generation_id)])"
    using poll_attempt_unsafe [of w t generation_id] assms(8)
    by (simp add: GENERATION_WAIT_TIME_def)
  have "poll_generation_status w generation_id [Post GENERATIONS_URL sent] =
          poll_loop w generation_id (k + Suc n) [Post GENERATIONS_URL sent]"
    by (simp only: poll_generation_status_def n)
  also have "\<dots> = poll_loop w generation_id (Suc n) t"
    by (rule poll_loop_after [OF assms(6)])
  also note last
  finally have poll: "poll_generation_status w generation_id [Post GENERATIONS_URL sent] =
          (Inr PNone, t @ [Sleep 10, Get (status_url w generation_id)])" .
  have "generate_image_body w p ?W ?H [] =
          poll_generation_status w generation_id [Post GENERATIONS_URL sent]"
    using accepted_submission [of w "[]" p ?W ?H generation_id] assms(4,5) by simp
  then have "generate_image w p ?W ?H [] =
          (Inr PNone, t @ [Sleep 10, Get (status_url w generation_id)])"
    using poll by (simp add: generate_image_None)
  then have "generate_image_endpoint w (PDict kvs) =
           ((500, PDict [(''error'', PStr ''Image generation failed'')]),
            t @ [Sleep 10, Get (status_url w generation_id)])"
    by (simp add: generate_image_endpoint_def endpoint_body_typed [OF assms(1-3)] error_response_def)
  with poll show ?thesis by simp
qed

theorem unsafe_image_aborts_polling_witness:
  "accepted (session_post unsafe_world [] GENERATIONS_URL
       (payload unsafe_world (PStr ''a cat'') (PInt 896) (PInt 1192))) (PStr ''gen-1'')
   \<and> earlier_attempts unsafe_world (PStr ''gen-1'') (Suc 0)
       [Post GENERATIONS_URL (payload unsafe_world (PStr ''a cat'') (PInt 896) (PInt 1192))] =
       Some [Post GENERATIONS_URL (payload unsafe_world (PStr ''a cat'') (PInt 896) (PInt 1192)),
             Sleep 10, Get (status_url unsafe_world (PStr ''gen-1''))]
   \<and> complete_unsafe (session_get unsafe_world
        [Post GENERATIONS_URL (payload unsafe_world (PStr ''a cat'') (PInt 896) (PInt 1192)),
         Sleep 10, Get (status_url unsafe_world (PStr ''gen-1'')), Sleep 10]
        (status_url unsafe_world (PStr ''gen-1'')))
   \<and> generate_image_endpoint unsafe_world (PDict [(''prompt'', PStr ''a cat'')]) =
       ((500, PDict [(''error'', PStr ''Image generation failed'')]),
        [Post GENERATIONS_URL (payload unsafe_world (PStr ''a cat'') (PInt 896) (PInt 1192)),
         Sleep 10, Get (status_url unsafe_world (PStr ''gen-1'')),
         Sleep 10, Get (status_url unsafe_world (PStr ''gen-1''))])"
  using unsafe_image_aborts_polling
    [of "[(''prompt'', PStr ''a cat'')]" "PStr ''a cat''" None None
        "payload unsafe_world (PStr ''a cat'') (PInt 896) (PInt 1192)" unsafe_world
        "PStr ''gen-1''" "Suc 0"
        "[Post GENERATIONS_URL (payload unsafe_world (PStr ''a cat'') (PInt 896) (PInt 1192)),
          Sleep 10, Get (status_url unsafe_world (PStr ''gen-1''))]"]
  by (simp add: accepted_def complete_unsafe_def unsafe_world_def unsafe_doc_def world_simps
      raise_for_status_def poll_attempt_def checked_def GENERATION_WAIT_TIME_def)

text \<open>
  C3. The width sent to the provider is the smaller of the requested width and 900, the
  height the smaller of the requested height and 1536, with 896 and 1192 for a value
  that is omitted. A larger value is capped and the request is not refused: the
  submission is made, it is the only one, and the answer is not 400.
\<close>

theorem forwarded_size_capped:
  assumes "map_of kvs ''prompt'' = Some p"
    and "map_of kvs ''width'' = map_option PInt wo"
    and "map_of kvs ''height'' = map_option PInt ho"
  shows "\<exists>width height rest.
           width = min (case wo of None \<Rightarrow> 896 | Some i \<Rightarrow> i) 900
         \<and> height = min (case ho of None \<Rightarrow> 1192 | Some i \<Rightarrow> i) 1536
         \<and> width \<le> 900 \<and> height \<le> 1536
         \<and> snd (generate_image_endpoint w (PDict kvs)) =
             Post GENERATIONS_URL (payload w p (PInt width) (PInt height)) # rest
         \<and> (\<forall>u q. Post u q \<notin> set rest)
         \<and> py_get (payload w p (PInt width) (PInt height)) ''width'' PNone = Inr (PInt width)
         \<and> py_get (payload w p (PInt width) (PInt height)) ''height'' PNone = Inr (PInt height)
         \<and> fst (fst (generate_image_endpoint w (PDict kvs))) \<noteq> 400"
proof -
  obtain rest where
    "snd (generate_image_endpoint w (PDict kvs)) =
       Post GENERATIONS_URL
         (payload w p (PInt (min (case wo of None \<Rightarrow> 896 | Some i \<Rightarrow> i) 900))
                      (PInt (min (case ho of None \<Rightarrow> 1192 | Some i \<Rightarrow> i) 1536))) # rest"
    "\<forall>u q. Post u q \<notin> set rest"
    "fst (fst (generate_image_endpoint w (PDict kvs))) \<in> {200, 500}"
    using endpoint_submits [OF assms] by blast
  then show ?thesis
    by (auto simp add: payload_def)
qed

theorem forwarded_size_capped_witness:
  "map_of [(''prompt'', PStr ''a cat''), (''width'', PInt 5000)] ''prompt'' = Some (PStr ''a cat'')
   \<and> map_of [(''prompt'', PStr ''a cat''), (''width'', PInt 5000)] ''width'' = map_option PInt (Some 5000)
   \<and> map_of [(''prompt'', PStr ''a cat''), (''width'', PInt 5000)] ''height'' = map_option PInt None
   \<and> (\<exists>rest. snd (generate_image_endpoint offline_world
                    (PDict [(''prompt'', PStr ''a cat''), (''width'', PInt 5000)])) =
         Post GENERATIONS_URL (payload offline_world (PStr ''a cat'') (PInt 900) (PInt 1192)) # rest)"
  using forwarded_size_capped
    [of "[(''prompt'', PStr ''a cat''), (''width'', PInt 5000)]" "PStr ''a cat''" "Some 5000" None
        offline_world]
  by auto

text \<open>
  C4. A result that the polling step returns has the image bytes attached if and only if
  its status is COMPLETE and the flag of its first image is false; and every result it
  returns does have them attached.
\<close>

theorem bytes_iff_complete_and_safe:
  assumes "poll_generation_status w generation_id t = (Inr result, t')"
    and "result \<noteq> PNone"
  shows "(has_image_bytes result \<longleftrightarrow>
            status_complete result \<and> (\<exists>flag. nsfw_flag result = Inr flag \<and> \<not> truthy flag))
       \<and> has_image_bytes result"
  using poll_loop_result [OF assms [unfolded poll_generation_status_def]] by simp

theorem bytes_iff_complete_and_safe_witness:
  "poll_generation_status happy_world (PStr ''gen-1'') [] =
     (Inr (PDict [(''status'', PStr ''COMPLETE''),
                  (''generated_images'', PList [PDict [(''url'', image_url0), (''nsfw'', PBool False)]]),
                  (''image_bytes'', PBytes [0xFF, 0xD8, 0xFF])]),
      [Sleep 10, Get (status_url happy_world (PStr ''gen-1'')), Get image_url0])
   \<and> PDict [(''status'', PStr ''COMPLETE''),
             (''generated_images'', PList [PDict [(''url'', image_url0), (''nsfw'', PBool False)]]),
             (''image_bytes'', PBytes [0xFF, 0xD8, 0xFF])] \<noteq> PNone
   \<and> has_image_bytes
        (PDict [(''status'', PStr ''COMPLETE''),
                (''generated_images'', PList [PDict [(''url'', image_url0), (''nsfw'', PBool False)]]),
                (''image_bytes'', PBytes [0xFF, 0xD8, 0xFF])])"
proof -
  let ?result = "PDict [(''status'', PStr ''COMPLETE''),
                (''generated_images'', PList [PDict [(''url'', image_url0), (''nsfw'', PBool False)]]),
                (''image_bytes'', PBytes [0xFF, 0xD8, 0xFF])]"
  have run: "poll_generation_status happy_world (PStr ''gen-1'') [] =
     (Inr ?result, [Sleep 10, Get (status_url happy_world (PStr ''gen-1'')), Get image_url0])"
    by (simp add: code_simps world_simps happy_world_def complete_doc_def image_url0_def
        GENERATIONS_URL_def poll_loop_numeral)
  have ne: "?result \<noteq> PNone" by simp
  from bytes_iff_complete_and_safe [OF run ne] run ne show ?thesis by blast
qed





text \<open>
  C7. \<^verbatim>\<open>upload_to_gcs\<close> returns \<^verbatim>\<open>None\<close> or the public URL and never raises, and
  \<^verbatim>\<open>generate_image\<close> never lets a \<^verbatim>\<open>RequestException\<close> through. Another exception
  does reach the endpoint: with a first status check that is pending and a second that
  reports COMPLETE with an empty list of images, \<^verbatim>\<open>generate_image\<close> raises
  \<^verbatim>\<open>IndexError\<close> instead of returning a result or \<^verbatim>\<open>None\<close>, and the endpoint
  answers \<^verbatim>\<open>Unexpected server error\<close>.
\<close>

theorem late_empty_image_list_escapes:
  "generate_image late_empty_world (PStr ''a cat'') (PInt 896) (PInt 1192) [] =
     (Inl IndexError,
      [Post GENERATIONS_URL (payload late_empty_world (PStr ''a cat'') (PInt 896) (PInt 1192)),
       Sleep 10, Get (status_url late_empty_world (PStr ''gen-1'')),
       Sleep 10, Get (status_url late_empty_world (PStr ''gen-1''))])
   \<and> fst (generate_image_endpoint late_empty_world (PDict [(''prompt'', PStr ''a cat'')])) =
       (500, PDict [(''error'', PStr ''Unexpected server error'')])"
  by (simp add: code_simps world_simps late_empty_world_def poll_loop_numeral)



text \<open>
  C9. A status check that reports COMPLETE with an empty list of generated images makes
  the index raise \<^verbatim>\<open>IndexError\<close>. Neither handler for \<^verbatim>\<open>RequestException\<close> catches
  it, \<^verbatim>\<open>generate_image\<close> lets it through, and the endpoint answers 500 with
  \<^verbatim>\<open>Unexpected server error\<close>.
\<close>

theorem empty_image_list_unexpected_error:
  "generate_image_endpoint empty_images_world (PDict [(''prompt'', PStr ''a cat'')]) =
     ((500, PDict [(''error'', PStr ''Unexpected server error'')]),
      [Post GENERATIONS_URL (payload empty_images_world (PStr ''a cat'') (PInt 896) (PInt 1192)),
       Sleep 10,
       Get (PStr (GENERATIONS_URL @ ''/gen-1''))])
   \<and> generate_image empty_images_world (PStr ''a cat'') (PInt 896) (PInt 1192) [] =
     (Inl IndexError,
      [Post GENERATIONS_URL (payload empty_images_world (PStr ''a cat'') (PInt 896) (PInt 1192)),
       Sleep 10,
       Get (PStr (GENERATIONS_URL @ ''/gen-1''))])"
  by (simp add: code_simps world_simps empty_images_world_def poll_loop_numeral)

text \<open>
  C10. Only the presence of the key \<^verbatim>\<open>prompt\<close> is checked. With the value null or the
  empty string the answer is not 400, and the value goes into the augmented prompt
  (null as the text \<^verbatim>\<open>None\<close>) that is submitted to the provider.
\<close>

theorem falsy_prompt_is_submitted:
  assumes "map_of kvs ''prompt'' = Some p"
    and "p = PNone \<or> p = PStr []"
    and "map_of kvs ''width'' = map_option PInt wo"
    and "map_of kvs ''height'' = map_option PInt ho"
  shows "fst (fst (generate_image_endpoint w (PDict kvs))) \<noteq> 400
       \<and> (\<exists>width height rest.
             snd (generate_image_endpoint w (PDict kvs)) =
               Post GENERATIONS_URL (payload w p width height) # rest
           \<and> py_get (payload w p width height) ''prompt'' PNone =
               Inr (PStr ((if p = PNone then ''None'' else []) @ PROMPT_SUFFIX)))"
proof -
  obtain rest where
    "snd (generate_image_endpoint w (PDict kvs)) =
       Post GENERATIONS_URL
         (payload w p (PInt (min (case wo of None \<Rightarrow> 896 | Some i \<Rightarrow> i) 900))
                      (PInt (min (case ho of None \<Rightarrow> 1192 | Some i \<Rightarrow> i) 1536))) # rest"
    "fst (fst (generate_image_endpoint w (PDict kvs))) \<in> {200, 500}"
    using endpoint_submits [OF assms(1,3,4)] by blast
  then show ?thesis
    using assms(2) by (auto simp add: payload_def full_prompt_def)
qed

theorem falsy_prompt_is_submitted_witness:
  "map_of [(''prompt'', PNone)] ''prompt'' = Some PNone
   \<and> (PNone = PNone \<or> PNone = PStr [])
   \<and> map_of [(''prompt'', PNone)] ''width'' = map_option PInt None
   \<and> map_of [(''prompt'', PNone)] ''height'' = map_option PInt None
   \<and> fst (fst (generate_image_endpoint pending_world (PDict [(''prompt'', PNone)]))) \<noteq> 400
   \<and> (\<exists>width height rest.
         snd (generate_image_endpoint pending_world (PDict [(''prompt'', PNone)])) =
           Post GENERATIONS_URL (payload pending_world PNone width height) # rest
       \<and> py_get (payload pending_world PNone width height) ''prompt'' PNone =
           Inr (PStr (''None'' @ PROMPT_SUFFIX)))"
  using falsy_prompt_is_submitted [of "[(''prompt'', PNone)]" PNone None None pending_world]
  by auto

end
